theory Spec2Isabelle
  imports Main "HOL-Library.Word" "HOL-Library.Sublist"
begin

section \<open>Panopticon: a message logger (run.py)\<close>

text \<open>
  The program turns every message event of a chat platform into one text entry and appends
  it to a file chosen from the conversation and the date. This theory embeds the functions
  of \<^verbatim>\<open>run.py\<close>: \<^verbatim>\<open>clean_filename\<close>, \<^verbatim>\<open>make_filename\<close>, \<^verbatim>\<open>make_message\<close>,
  \<^verbatim>\<open>write\<close>, \<^verbatim>\<open>handle_message\<close> and the event listeners.

  A Python \<^verbatim>\<open>str\<close> is a \<^typ>\<open>string\<close>: the list of the bytes of its UTF-8 encoding. Every
  character the program tests for or inserts is ASCII, and an ASCII byte never occurs inside
  the encoding of another code point, so removing or replacing such characters byte by byte
  is removing or replacing them code point by code point.
\<close>

subsection \<open>Characters and text\<close>

definition newline :: char where
  "newline = CHR 0x0A"

definition backslash :: char where
  "backslash = CHR 0x5C"

definition dquote :: char where
  "dquote = CHR 0x22"

text \<open>
  \<^verbatim>\<open>re.sub(r'[...]', repl, string)\<close> for a pattern that is one character class: the
  string is scanned from the left, a character of the class is replaced by \<open>repl\<close> and any
  other character is copied.
\<close>

fun re_sub_class :: "(char \<Rightarrow> bool) \<Rightarrow> string \<Rightarrow> string \<Rightarrow> string" where
  "re_sub_class cls repl [] = []"
| "re_sub_class cls repl (c # cs) =
     (if cls c then repl @ re_sub_class cls repl cs else c # re_sub_class cls repl cs)"

text \<open>
  The class of \<^verbatim>\<open>clean_filename\<close>, \<^verbatim>\<open>[/\\:*?"<>|\x00-\x1f]\<close>: nine single characters and
  the range from code 0 to code 31.
\<close>

definition filename_class :: "char \<Rightarrow> bool" where
  "filename_class c \<longleftrightarrow>
     c = CHR ''/'' \<or> c = backslash \<or> c = CHR '':'' \<or> c = CHR ''*'' \<or> c = CHR ''?'' \<or>
     c = dquote \<or> c = CHR ''<'' \<or> c = CHR ''>'' \<or> c = CHR ''|'' \<or>
     ((0::nat) \<le> of_char c \<and> of_char c \<le> (0x1F::nat))"

definition clean_filename :: "string \<Rightarrow> string" where
  "clean_filename s = re_sub_class filename_class [] s"

text \<open>
  The set the specification names: the nine punctuation characters and the ASCII control
  characters 0x00 to 0x1F.
\<close>

definition forbidden :: "char set" where
  "forbidden =
     {CHR ''/'', CHR 0x5C, CHR '':'', CHR ''*'', CHR ''?'', CHR 0x22, CHR ''<'', CHR ''>'', CHR ''|''}
     \<union> {c. (of_char c :: nat) < 32}"

subsection \<open>Exceptions\<close>

text \<open>
  The exceptions a call of the program can end with. A function that can raise returns
  \<open>py_exception + 'a\<close>, with \<open>Inl\<close> for the exception.
\<close>

datatype py_exception =
    OverflowError
  | TypeError
  | AttributeError
  | FileNotFoundError
  | FileExistsError
  | NotADirectoryError
  | IsADirectoryError
  | NotFound
  | Forbidden
  | HTTPException

subsection \<open>The data of a message event\<close>

text \<open>
  The platform's ids are 64-bit numbers. A \<^verbatim>\<open>datetime\<close> is naive (it carries no time
  zone); the platform's timestamps are in UTC.
\<close>

type_synonym snowflake = "64 word"

record datetime =
  year :: nat
  month :: nat
  day :: nat
  hour :: nat
  minute :: nat
  second :: nat

record user =
  user_name :: string
  discriminator :: string
  user_id :: snowflake

record guild =
  guild_name :: string
  guild_id :: snowflake

text \<open>
  The channel of a message: a guild's text channel (its guild, name and id), a direct
  message channel (its recipient: the user at the other end), a group channel (name and
  id), or a channel of any other class, which may belong to a guild.
\<close>

datatype channel =
    TextChannel guild string snowflake
  | DMChannel user
  | GroupChannel string snowflake
  | OtherChannel "guild option"

record attachment =
  url :: string

record message =
  msg_id :: snowflake
  created_at :: datetime
  edited_at :: "datetime option"
  author :: user
  channel :: channel
  clean_content :: string
  attachments :: "attachment list"

text \<open>
  \<^verbatim>\<open>message.guild\<close> is the guild of the message's channel, and \<^verbatim>\<open>None\<close> for a channel
  that has none.
\<close>

fun channel_guild :: "channel \<Rightarrow> guild option" where
  "channel_guild (TextChannel g n i) = Some g"
| "channel_guild (DMChannel u) = None"
| "channel_guild (GroupChannel n i) = None"
| "channel_guild (OtherChannel g) = g"

definition message_guild :: "message \<Rightarrow> guild option" where
  "message_guild m = channel_guild (channel m)"

subsection \<open>Configuration and environment\<close>

text \<open>The values the program imports from \<^verbatim>\<open>config.py\<close>.\<close>

record config =
  USE_LOCALTIME :: bool
  LOG_DIR :: string
  IGNORE_SERVERS :: "snowflake list"

text \<open>
  What a call reads from the operating system: the conversion of a UTC time to the local
  time zone (\<^verbatim>\<open>time.replace(tzinfo=timezone.utc).astimezone(tz=None)\<close>), the clock
  (\<^verbatim>\<open>datetime.now()\<close>, \<^verbatim>\<open>datetime.utcnow()\<close>) and \<^verbatim>\<open>time.daylight\<close>.
\<close>

record env =
  astimezone_local :: "datetime \<Rightarrow> datetime"
  datetime_now :: datetime
  datetime_utcnow :: datetime
  time_daylight :: int

subsection \<open>Formatting numbers and times\<close>

definition digit_char :: "nat \<Rightarrow> char" where
  "digit_char n = ''0123456789'' ! n"

text \<open>\<^verbatim>\<open>str(n)\<close> and \<^verbatim>\<open>'{}'.format(n)\<close> for an integer that is not negative.\<close>

function str_nat :: "nat \<Rightarrow> string" where
  "str_nat n = (if n < 10 then [digit_char n] else str_nat (n div 10) @ [digit_char (n mod 10)])"
  by pat_completeness auto
termination
  by (relation "measure id") auto

declare str_nat.simps [simp del]

definition pad_zero :: "nat \<Rightarrow> string \<Rightarrow> string" where
  "pad_zero w s = replicate (w - length s) (CHR ''0'') @ s"

text \<open>
  \<^verbatim>\<open>strftime\<close>, for the directives the program uses and those they stand for:
  \<^verbatim>\<open>%F\<close> is \<^verbatim>\<open>%Y-%m-%d\<close> and \<^verbatim>\<open>%D\<close> is \<^verbatim>\<open>%m/%d/%y\<close>. The year of a platform
  timestamp has four digits.
\<close>

definition strftime_directive :: "char \<Rightarrow> datetime \<Rightarrow> string" where
  "strftime_directive d t =
     (if d = CHR ''Y'' then str_nat (year t)
      else if d = CHR ''m'' then pad_zero 2 (str_nat (month t))
      else if d = CHR ''d'' then pad_zero 2 (str_nat (day t))
      else if d = CHR ''H'' then pad_zero 2 (str_nat (hour t))
      else if d = CHR ''M'' then pad_zero 2 (str_nat (minute t))
      else if d = CHR ''S'' then pad_zero 2 (str_nat (second t))
      else if d = CHR ''y'' then pad_zero 2 (str_nat (year t mod 100))
      else if d = CHR ''F'' then
        str_nat (year t) @ ''-'' @ pad_zero 2 (str_nat (month t)) @ ''-'' @
        pad_zero 2 (str_nat (day t))
      else if d = CHR ''D'' then
        pad_zero 2 (str_nat (month t)) @ ''/'' @ pad_zero 2 (str_nat (day t)) @ ''/'' @
        pad_zero 2 (str_nat (year t mod 100))
      else if d = CHR ''%'' then ''%''
      else [CHR ''%'', d])"

fun strftime :: "string \<Rightarrow> datetime \<Rightarrow> string" where
  "strftime (p # d # fmt) t =
     (if p = CHR ''%'' then strftime_directive d t @ strftime fmt t
      else p # strftime (d # fmt) t)"
| "strftime [c] t = [c]"
| "strftime [] t = []"

subsection \<open>Bytes and base64\<close>

text \<open>
  \<^verbatim>\<open>n.to_bytes(length, byteorder='little')\<close>: the bytes of \<open>n\<close>, lowest first; it raises
  \<^verbatim>\<open>OverflowError\<close> when \<open>n\<close> does not fit. A byte is a number below 256.
\<close>

fun to_bytes_little :: "nat \<Rightarrow> nat \<Rightarrow> nat list" where
  "to_bytes_little 0 n = []"
| "to_bytes_little (Suc k) n = (n mod 256) # to_bytes_little k (n div 256)"

definition int_to_bytes :: "nat \<Rightarrow> nat \<Rightarrow> py_exception + nat list" where
  "int_to_bytes n len =
     (if n < 256 ^ len then Inr (to_bytes_little len n) else Inl OverflowError)"

text \<open>\<^verbatim>\<open>int.from_bytes(bs, byteorder='little')\<close>.\<close>

fun int_from_bytes :: "nat list \<Rightarrow> nat" where
  "int_from_bytes [] = 0"
| "int_from_bytes (b # bs) = b + 256 * int_from_bytes bs"

text \<open>
  \<^verbatim>\<open>base64.b64encode\<close> (RFC 4648, the standard alphabet): three bytes become four
  characters, and a last group of one or two bytes is padded with \<^verbatim>\<open>=\<close>.
\<close>

definition b64_alphabet :: string where
  "b64_alphabet = ''ABCDEFGHIJKLMNOPQRSTUVWXYZabcdefghijklmnopqrstuvwxyz0123456789+/''"

definition b64_char :: "nat \<Rightarrow> char" where
  "b64_char n = b64_alphabet ! n"

fun b64encode :: "nat list \<Rightarrow> string" where
  "b64encode (a # b # c # rest) =
     [b64_char (a div 4), b64_char ((a mod 4) * 16 + b div 16),
      b64_char ((b mod 16) * 4 + c div 64), b64_char (c mod 64)] @ b64encode rest"
| "b64encode [a, b] =
     [b64_char (a div 4), b64_char ((a mod 4) * 16 + b div 16),
      b64_char ((b mod 16) * 4), CHR ''='']"
| "b64encode [a] = [b64_char (a div 4), b64_char ((a mod 4) * 16), CHR ''='', CHR ''='']"
| "b64encode [] = []"

text \<open>
  The decoder of the same alphabet, for a text of whole groups of four characters, the
  last of which may end with one or two \<^verbatim>\<open>=\<close>; \<open>None\<close> for any other text.
\<close>

definition b64_index :: "char \<Rightarrow> nat option" where
  "b64_index c = map_of (zip b64_alphabet [0..<64]) c"

fun b64decode :: "string \<Rightarrow> nat list option" where
  "b64decode (c0 # c1 # c2 # c3 # rest) =
     (case (b64_index c0, b64_index c1) of
        (Some s0, Some s1) \<Rightarrow>
          (if c2 = CHR ''='' \<and> c3 = CHR ''='' \<and> rest = [] then Some [s0 * 4 + s1 div 16]
           else
             (case b64_index c2 of
                None \<Rightarrow> None
              | Some s2 \<Rightarrow>
                  (if c3 = CHR ''='' \<and> rest = []
                   then Some [s0 * 4 + s1 div 16, (s1 mod 16) * 16 + s2 div 4]
                   else
                     (case b64_index c3 of
                        None \<Rightarrow> None
                      | Some s3 \<Rightarrow>
                          (case b64decode rest of
                             None \<Rightarrow> None
                           | Some bs \<Rightarrow>
                               Some ([s0 * 4 + s1 div 16, (s1 mod 16) * 16 + s2 div 4,
                                      (s2 mod 4) * 64 + s3] @ bs))))))
      | _ \<Rightarrow> None)"
| "b64decode [] = Some []"
| "b64decode _ = None"

text \<open>
  The token of a message id, as \<^verbatim>\<open>make_message\<close> computes it:
  \<^verbatim>\<open>base64.b64encode(int(message.id).to_bytes(8, byteorder='little')).decode('utf-8')\<close>.
\<close>

definition encode_id :: "snowflake \<Rightarrow> py_exception + string" where
  "encode_id i =
     (case int_to_bytes (unat i) 8 of Inl e \<Rightarrow> Inl e | Inr bytes \<Rightarrow> Inr (b64encode bytes))"

text \<open>
  Reading a token back, as the specification describes it: decode the base64 text to bytes
  and read them as a little-endian integer.
\<close>

definition decode_idtag :: "string \<Rightarrow> nat option" where
  "decode_idtag token = map_option int_from_bytes (b64decode token)"

subsection \<open>The record formatter\<close>

text \<open>\<^verbatim>\<open>s.replace(old, new)\<close> for a pattern \<open>old\<close> of one character.\<close>

fun str_replace :: "char \<Rightarrow> string \<Rightarrow> string \<Rightarrow> string" where
  "str_replace old new [] = []"
| "str_replace old new (c # cs) =
     (if c = old then new @ str_replace old new cs else c # str_replace old new cs)"

definition make_message :: "config \<Rightarrow> env \<Rightarrow> message \<Rightarrow> py_exception + string" where
  "make_message cfg e message =
     (let message_id = (if edited_at message \<noteq> None then ''[E:'' else ''['') in
      case encode_id (msg_id message) of
        Inl err \<Rightarrow> Inl err
      | Inr token \<Rightarrow>
          (let message_id = message_id @ token @ '']'';
               time = (case edited_at message of Some t \<Rightarrow> t | None \<Rightarrow> created_at message);
               time = (if USE_LOCALTIME cfg then astimezone_local e time else time);
               timestamp = strftime ''[%H:%M:%S]'' time;
               author = ''<'' @ user_name (author message) @ ''#'' @
                        discriminator (author message) @ ''>'';
               content = str_replace newline (newline # ''(newline) '') (clean_content message);
               attachments =
                 (if attachments message \<noteq> []
                  then foldl (\<lambda>acc attach. acc @ newline # ''(attach) '' @ url attach) []
                         (attachments message)
                  else [])
           in Inr (message_id @ '' '' @ timestamp @ '' '' @ author @ '' '' @ content @ '' '' @
                   attachments)))"

text \<open>
  The parts of a log line, in the words of the specification: the id tag (\<^verbatim>\<open>E:\<close> for
  an edited message, then the token), the time of the edit if there is one and of the
  creation otherwise, under the local-time policy, as \<^verbatim>\<open>HH:MM:SS\<close>, the content with
  the marker after every newline, and one line per attachment.
\<close>

definition idtag :: "message \<Rightarrow> string" where
  "idtag m =
     (if edited_at m \<noteq> None then ''E:'' else []) @
     b64encode (to_bytes_little 8 (unat (msg_id m)))"

definition effective_time :: "message \<Rightarrow> datetime" where
  "effective_time m = (case edited_at m of Some t \<Rightarrow> t | None \<Rightarrow> created_at m)"

definition display_time :: "config \<Rightarrow> env \<Rightarrow> message \<Rightarrow> datetime" where
  "display_time cfg e m =
     (if USE_LOCALTIME cfg then astimezone_local e (effective_time m) else effective_time m)"

definition hh_mm_ss :: "datetime \<Rightarrow> string" where
  "hh_mm_ss t =
     pad_zero 2 (str_nat (hour t)) @ '':'' @ pad_zero 2 (str_nat (minute t)) @ '':'' @
     pad_zero 2 (str_nat (second t))"

definition newline_marker :: string where
  "newline_marker = ''(newline) ''"

definition escaped_content :: "string \<Rightarrow> string" where
  "escaped_content s =
     concat (map (\<lambda>c. if c = newline then newline # newline_marker else [c]) s)"

definition attachment_lines :: "attachment list \<Rightarrow> string" where
  "attachment_lines as = concat (map (\<lambda>a. newline # ''(attach) '' @ url a) as)"

subsection \<open>The file system\<close>

text \<open>
  The state the program changes: the directories that exist and the text of every regular
  file. A path names a file by its spelling, and the program spells the path of a log file
  the same way at every call. The working directory and the root always exist.
\<close>

record filesystem =
  dirs :: "string set"
  files :: "string \<rightharpoonup> string"

text \<open>
  \<^verbatim>\<open>os.path.dirname\<close> (posixpath): the text up to the last slash, without trailing
  slashes unless it consists of slashes only.
\<close>

definition os_path_dirname :: "string \<Rightarrow> string" where
  "os_path_dirname p =
     (let head = rev (dropWhile (\<lambda>c. c \<noteq> CHR ''/'') (rev p)) in
      if head \<noteq> [] \<and> head \<noteq> replicate (length head) (CHR ''/'')
      then rev (dropWhile (\<lambda>c. c = CHR ''/'') (rev head))
      else head)"

definition os_path_exists :: "string \<Rightarrow> filesystem \<Rightarrow> bool" where
  "os_path_exists p fs \<longleftrightarrow> p \<in> dirs fs \<or> files fs p \<noteq> None"

text \<open>
  The directory a path names and its ancestors, outermost first: the prefixes of the path
  that end before a slash, and the path itself. The second argument is the text read so
  far, reversed.
\<close>

fun path_prefixes :: "string \<Rightarrow> string \<Rightarrow> string list" where
  "path_prefixes acc [] = (if acc = [] then [] else [rev acc])"
| "path_prefixes acc (c # cs) =
     (if c = CHR ''/'' \<and> acc \<noteq> [] \<and> hd acc \<noteq> CHR ''/''
      then rev acc # path_prefixes (c # acc) cs
      else path_prefixes (c # acc) cs)"

text \<open>
  \<^verbatim>\<open>os.makedirs(name, exist_ok=True)\<close>: every missing directory on the way to \<open>name\<close>
  is created. It raises for the empty name and where a regular file stands in the way, and
  then nothing has been created (the directories above an existing file exist already).
\<close>

definition os_makedirs :: "string \<Rightarrow> filesystem \<Rightarrow> (py_exception + unit) \<times> filesystem" where
  "os_makedirs name fs =
     (if name = [] then (Inl FileNotFoundError, fs)
      else if files fs name \<noteq> None then (Inl FileExistsError, fs)
      else if list_ex (\<lambda>d. files fs d \<noteq> None) (path_prefixes [] name)
      then (Inl NotADirectoryError, fs)
      else (Inr (), fs\<lparr>dirs := dirs fs \<union> set (path_prefixes [] name)\<rparr>))"

text \<open>
  \<^verbatim>\<open>open(filename, 'a', encoding='utf8')\<close> creates the file when it is missing and
  raises for a directory; \<^verbatim>\<open>file.write\<close> appends to the text of the file.
\<close>

definition open_append :: "string \<Rightarrow> filesystem \<Rightarrow> (py_exception + unit) \<times> filesystem" where
  "open_append p fs =
     (if p \<in> dirs fs then (Inl IsADirectoryError, fs)
      else (Inr (), if files fs p = None then fs\<lparr>files := (files fs)(p \<mapsto> [])\<rparr> else fs))"

definition file_write :: "string \<Rightarrow> string \<Rightarrow> filesystem \<Rightarrow> filesystem" where
  "file_write p s fs =
     fs\<lparr>files := (files fs)(p \<mapsto> (case files fs p of None \<Rightarrow> s | Some old \<Rightarrow> old @ s))\<rparr>"

subsection \<open>The path router\<close>

text \<open>
  \<^verbatim>\<open>make_filename\<close>. For a channel of no class the function tests for, no branch
  returns and the result is \<^verbatim>\<open>None\<close>.
\<close>

definition make_filename :: "config \<Rightarrow> message \<Rightarrow> string option" where
  "make_filename cfg message =
     (let time = (case edited_at message of Some t \<Rightarrow> t | None \<Rightarrow> created_at message);
          timestamp = strftime ''%F'' time
      in case channel message of
           TextChannel g cname cid \<Rightarrow>
             Some (LOG_DIR cfg @ ''/'' @ clean_filename (guild_name g) @ ''-'' @
                   str_nat (unat (guild_id g)) @ ''/#'' @ clean_filename cname @ ''-'' @
                   str_nat (unat cid) @ ''/'' @ timestamp @ ''.log'')
         | DMChannel recipient \<Rightarrow>
             Some (LOG_DIR cfg @ ''/DM/'' @ clean_filename (user_name (author message)) @ ''-'' @
                   str_nat (unat (user_id (author message))) @ ''/'' @ timestamp @ ''.log'')
         | GroupChannel gname gid \<Rightarrow>
             Some (LOG_DIR cfg @ ''/DM/'' @ clean_filename gname @ ''-'' @
                   str_nat (unat gid) @ ''/'' @ timestamp @ ''.log'')
         | OtherChannel g \<Rightarrow> None)"

subsection \<open>The writer\<close>

text \<open>
  \<^verbatim>\<open>write(filename, string)\<close>, named \<open>write'\<close> here. \<^verbatim>\<open>os.path.dirname(None)\<close>
  raises \<^verbatim>\<open>TypeError\<close> before anything else is done.
\<close>

definition write' ::
  "config \<Rightarrow> env \<Rightarrow> string option \<Rightarrow> string \<Rightarrow> filesystem \<Rightarrow> (py_exception + unit) \<times> filesystem" where
  "write' cfg e filename string fs =
     (case filename of
        None \<Rightarrow> (Inl TypeError, fs)
      | Some fname \<Rightarrow>
          (case os_makedirs (os_path_dirname fname) fs of
             (Inl err, fs1) \<Rightarrow> (Inl err, fs1)
           | (Inr u, fs1) \<Rightarrow>
               (let exists = os_path_exists fname fs1 in
                case open_append fname fs1 of
                  (Inl err, fs2) \<Rightarrow> (Inl err, fs2)
                | (Inr u, fs2) \<Rightarrow>
                    (let fs3 =
                       (if \<not> exists then
                          (let dt_object =
                                 (if USE_LOCALTIME cfg then datetime_now e else datetime_utcnow e);
                               starthour = (if time_daylight e \<noteq> 0 then 11 else 10)
                           in file_write fname
                                (''Session start: '' @ strftime ''%Y-%m-%D'' dt_object @ '' '' @
                                 str_nat starthour @ '':00'' @ [newline]) fs2)
                        else fs2)
                     in (Inr (), file_write fname (string @ [newline]) fs3)))))"

subsection \<open>The dispatcher\<close>

definition handle_message ::
  "config \<Rightarrow> env \<Rightarrow> message \<Rightarrow> filesystem \<Rightarrow> (py_exception + unit) \<times> filesystem" where
  "handle_message cfg e message fs =
     (if (case message_guild message of
            None \<Rightarrow> False
          | Some g \<Rightarrow> guild_id g \<in> set (IGNORE_SERVERS cfg))
      then (Inr (), fs)
      else
        (let filename = make_filename cfg message in
         case make_message cfg e message of
           Inl err \<Rightarrow> (Inl err, fs)
         | Inr string \<Rightarrow> write' cfg e filename string fs))"

text \<open>
  What the listeners ask of the platform library: the message cache
  (\<^verbatim>\<open>bot._connection._get_message\<close>), the channel of an id (\<^verbatim>\<open>bot.get_channel\<close>) and
  the request for a message (\<^verbatim>\<open>channel.get_message\<close>), which answers with a message or
  raises.
\<close>

record platform =
  get_cached_message :: "snowflake \<Rightarrow> message option"
  get_channel :: "snowflake \<Rightarrow> channel option"
  channel_get_message :: "channel \<Rightarrow> snowflake \<Rightarrow> py_exception + message option"

record raw_message_update =
  payload_message_id :: snowflake
  payload_channel_id :: snowflake

text \<open>
  The attribute \<^verbatim>\<open>channel.guild\<close>, which \<^verbatim>\<open>on_raw_message_edit\<close> reads from the
  channel itself: the library's direct message and group channels have no such attribute
  (\<^verbatim>\<open>message.guild\<close> reads it with a default).
\<close>

fun channel_guild_attr :: "channel \<Rightarrow> py_exception + guild option" where
  "channel_guild_attr (TextChannel g n i) = Inr (Some g)"
| "channel_guild_attr (DMChannel u) = Inl AttributeError"
| "channel_guild_attr (GroupChannel n i) = Inl AttributeError"
| "channel_guild_attr (OtherChannel g) = Inr g"

definition on_message ::
  "config \<Rightarrow> env \<Rightarrow> message \<Rightarrow> filesystem \<Rightarrow> (py_exception + unit) \<times> filesystem" where
  "on_message cfg e message fs = handle_message cfg e message fs"

text \<open>
  The program registers two listeners named \<^verbatim>\<open>on_message_edit\<close>: the first does
  nothing, the second logs the message after the edit.
\<close>

definition on_message_edit_first ::
  "config \<Rightarrow> env \<Rightarrow> message \<Rightarrow> message \<Rightarrow> filesystem \<Rightarrow> (py_exception + unit) \<times> filesystem" where
  "on_message_edit_first cfg e before after fs = (Inr (), fs)"

definition on_message_edit_second ::
  "config \<Rightarrow> env \<Rightarrow> message \<Rightarrow> message \<Rightarrow> filesystem \<Rightarrow> (py_exception + unit) \<times> filesystem" where
  "on_message_edit_second cfg e before after fs = handle_message cfg e after fs"

definition on_raw_message_edit ::
  "config \<Rightarrow> env \<Rightarrow> platform \<Rightarrow> raw_message_update \<Rightarrow> filesystem \<Rightarrow>
   (py_exception + unit) \<times> filesystem" where
  "on_raw_message_edit cfg e client payload fs =
     (case get_cached_message client (payload_message_id payload) of
        Some message \<Rightarrow> (Inr (), fs)
      | None \<Rightarrow>
          (case get_channel client (payload_channel_id payload) of
             None \<Rightarrow> (Inr (), fs)
           | Some chan \<Rightarrow>
               (case channel_guild_attr chan of
                  Inl err \<Rightarrow> (Inl err, fs)
                | Inr g \<Rightarrow>
                    (if (case g of
                           None \<Rightarrow> False
                         | Some g' \<Rightarrow> guild_id g' \<in> set (IGNORE_SERVERS cfg))
                     then (Inr (), fs)
                     else
                       (case channel_get_message client chan (payload_message_id payload) of
                          Inl err \<Rightarrow> (Inl err, fs)
                        | Inr None \<Rightarrow> (Inr (), fs)
                        | Inr (Some message) \<Rightarrow> handle_message cfg e message fs)))))"

text \<open>
  The delivery of the direct edit event: the platform library runs every listener
  registered for it, in the order of registration, each on its own.
\<close>

definition dispatch_message_edit ::
  "config \<Rightarrow> env \<Rightarrow> message \<Rightarrow> message \<Rightarrow> filesystem \<Rightarrow>
   (py_exception + unit) list \<times> filesystem" where
  "dispatch_message_edit cfg e before after fs =
     (let (r1, fs1) = on_message_edit_first cfg e before after fs;
          (r2, fs2) = on_message_edit_second cfg e before after fs1
      in ([r1, r2], fs2))"

subsection \<open>The specification's router and marker\<close>

text \<open>
  The date of a message under the local-time policy, and the path the specification gives:
  the guild and channel for a guild channel, the counterpart (the recipient of the channel)
  for a direct message, the group for a group message.
\<close>

definition policy_date :: "config \<Rightarrow> env \<Rightarrow> message \<Rightarrow> string" where
  "policy_date cfg e m = strftime ''%Y-%m-%d'' (display_time cfg e m)"

definition route :: "config \<Rightarrow> env \<Rightarrow> message \<Rightarrow> string option" where
  "route cfg e m =
     (case channel m of
        TextChannel g cname cid \<Rightarrow>
          Some (LOG_DIR cfg @ ''/'' @ clean_filename (guild_name g) @ ''-'' @
                str_nat (unat (guild_id g)) @ ''/#'' @ clean_filename cname @ ''-'' @
                str_nat (unat cid) @ ''/'' @ policy_date cfg e m @ ''.log'')
      | DMChannel counterpart \<Rightarrow>
          Some (LOG_DIR cfg @ ''/DM/'' @ clean_filename (user_name counterpart) @ ''-'' @
                str_nat (unat (user_id counterpart)) @ ''/'' @ policy_date cfg e m @ ''.log'')
      | GroupChannel gname gid \<Rightarrow>
          Some (LOG_DIR cfg @ ''/DM/'' @ clean_filename gname @ ''-'' @
                str_nat (unat gid) @ ''/'' @ policy_date cfg e m @ ''.log'')
      | OtherChannel g \<Rightarrow> None)"

text \<open>The first line of a new file, as \<^verbatim>\<open>write\<close> composes it.\<close>

definition session_start_line :: "config \<Rightarrow> env \<Rightarrow> string" where
  "session_start_line cfg e =
     ''Session start: '' @
     strftime ''%Y-%m-%D'' (if USE_LOCALTIME cfg then datetime_now e else datetime_utcnow e) @
     '' '' @ str_nat (if time_daylight e \<noteq> 0 then 11 else 10) @ '':00'' @ [newline]"

text \<open>
  The marker of the specification, \<^verbatim>\<open>Session start: <YYYY-MM-DD> <H>:00\<close>, for the same
  clock and hour.
\<close>

definition session_start_spec :: "config \<Rightarrow> env \<Rightarrow> string" where
  "session_start_spec cfg e =
     ''Session start: '' @
     strftime ''%Y-%m-%d'' (if USE_LOCALTIME cfg then datetime_now e else datetime_utcnow e) @
     '' '' @ str_nat (if time_daylight e \<noteq> 0 then 11 else 10) @ '':00'' @ [newline]"

subsection \<open>Example values\<close>

text \<open>
  The scenario of the specification: the guild Test Guild (id 1), its channel general
  (id 2), the author alice#0001, the message 1234567890123456789 created on 2023-05-01 at
  10:00:00 UTC with the content "hello world", local time off and the log root \<^verbatim>\<open>logs\<close>;
  then an edited message of two lines with two attachments, and variations of both.
\<close>

definition utc_env :: env where
  "utc_env =
     \<lparr>astimezone_local = (\<lambda>t. t),
      datetime_now = \<lparr>year = 2023, month = 5, day = 1, hour = 10, minute = 0, second = 7\<rparr>,
      datetime_utcnow = \<lparr>year = 2023, month = 5, day = 1, hour = 10, minute = 0, second = 7\<rparr>,
      time_daylight = 0\<rparr>"

definition utc_config :: config where
  "utc_config = \<lparr>USE_LOCALTIME = False, LOG_DIR = ''logs'', IGNORE_SERVERS = [7]\<rparr>"

definition alice :: user where
  "alice = \<lparr>user_name = ''alice'', discriminator = ''0001'', user_id = 3\<rparr>"

definition hello_message :: message where
  "hello_message =
     \<lparr>msg_id = 1234567890123456789,
      created_at = \<lparr>year = 2023, month = 5, day = 1, hour = 10, minute = 0, second = 0\<rparr>,
      edited_at = None,
      author = alice,
      channel = TextChannel \<lparr>guild_name = ''Test Guild'', guild_id = 1\<rparr> ''general'' 2,
      clean_content = ''hello world'',
      attachments = []\<rparr>"

definition edited_message :: message where
  "edited_message =
     \<lparr>msg_id = 1,
      created_at = \<lparr>year = 2023, month = 5, day = 1, hour = 23, minute = 59, second = 58\<rparr>,
      edited_at = Some \<lparr>year = 2023, month = 5, day = 2, hour = 0, minute = 30, second = 5\<rparr>,
      author = alice,
      channel = TextChannel \<lparr>guild_name = ''Test Guild'', guild_id = 1\<rparr> ''general'' 2,
      clean_content = ''line1'' @ [newline] @ ''line2'',
      attachments = [\<lparr>url = ''http://a/1''\<rparr>, \<lparr>url = ''http://a/2''\<rparr>]\<rparr>"

definition empty_fs :: filesystem where
  "empty_fs = \<lparr>dirs = {}, files = Map.empty\<rparr>"

definition bob :: user where
  "bob = \<lparr>user_name = ''bob'', discriminator = ''0042'', user_id = 4\<rparr>"

text \<open>A direct message to bob, written by the logged-in account alice.\<close>

definition own_dm :: message where
  "own_dm = hello_message\<lparr>channel := DMChannel bob\<rparr>"

text \<open>A message in a guild channel that is not a text channel.\<close>

definition other_message :: message where
  "other_message = hello_message\<lparr>channel := OtherChannel (Some \<lparr>guild_name = ''Test Guild'', guild_id = 1\<rparr>)\<rparr>"

text \<open>A message in the guild 7, which \<open>utc_config\<close> ignores.\<close>

definition ignored_message :: message where
  "ignored_message =
     hello_message\<lparr>channel := TextChannel \<lparr>guild_name = ''Quiet'', guild_id = 7\<rparr> ''general'' 8\<rparr>"

text \<open>
  A platform that holds no message in its cache, knows every channel id as the text
  channel of the example and cannot find the message asked for.
\<close>

definition lost_platform :: platform where
  "lost_platform =
     \<lparr>get_cached_message = (\<lambda>i. None),
      get_channel = (\<lambda>i. Some (channel hello_message)),
      channel_get_message = (\<lambda>c i. Inl NotFound)\<rparr>"


text \<open>
  Platforms that hold no message in their cache, resolve every channel id to the direct
  message channel with bob or to a group channel, and fetch the message asked for.
\<close>

definition dm_platform :: platform where
  "dm_platform =
     \<lparr>get_cached_message = (\<lambda>i. None),
      get_channel = (\<lambda>i. Some (DMChannel bob)),
      channel_get_message = (\<lambda>c i. Inr (Some own_dm))\<rparr>"

definition group_platform :: platform where
  "group_platform =
     \<lparr>get_cached_message = (\<lambda>i. None),
      get_channel = (\<lambda>i. Some (GroupChannel ''friends'' 9)),
      channel_get_message =
        (\<lambda>c i. Inr (Some (hello_message\<lparr>channel := GroupChannel ''friends'' 9\<rparr>)))\<rparr>"

text \<open>The raw edit event of the message with id 1 in the channel 2.\<close>

definition edit_payload :: raw_message_update where
  "edit_payload = \<lparr>payload_message_id = 1, payload_channel_id = 2\<rparr>"

text \<open>
  A configuration with local time on, a clock one hour ahead of UTC (on a day that is not
  the last of its month) and a message written half an hour before midnight, UTC.
\<close>

definition local_config :: config where
  "local_config = utc_config\<lparr>USE_LOCALTIME := True\<rparr>"

definition ahead_env :: env where
  "ahead_env =
     utc_env\<lparr>astimezone_local :=
       (\<lambda>t. if hour t = 23 then t\<lparr>hour := 0, day := day t + 1\<rparr> else t\<lparr>hour := hour t + 1\<rparr>)\<rparr>"

definition late_message :: message where
  "late_message =
     hello_message\<lparr>created_at :=
       \<lparr>year = 2023, month = 5, day = 1, hour = 23, minute = 30, second = 0\<rparr>\<rparr>"

section \<open>Properties\<close>

subsection \<open>The sanitizer\<close>

lemma filename_class_forbidden: "filename_class c \<longleftrightarrow> c \<in> forbidden"
  by (auto simp: filename_class_def forbidden_def backslash_def dquote_def)

lemma re_sub_class_delete: "re_sub_class cls [] s = filter (\<lambda>c. \<not> cls c) s"
  by (induction s) simp_all

lemma clean_filename_filter: "clean_filename s = filter (\<lambda>c. c \<notin> forbidden) s"
  by (simp add: clean_filename_def re_sub_class_delete filename_class_forbidden)

text \<open>
  C7. The sanitizer keeps, in their order, exactly the characters outside the forbidden set
  (the nine punctuation characters and the codes 0x00 to 0x1F) and removes every character
  inside it; applying it twice is applying it once; no character of its output is
  forbidden. It is a total function with no error case.
\<close>

theorem clean_filename_removes_exactly_forbidden:
  "clean_filename s = filter (\<lambda>c. c \<notin> forbidden) s
   \<and> clean_filename (clean_filename s) = clean_filename s
   \<and> set (clean_filename s) \<inter> forbidden = {}
   \<and> set (clean_filename s) = set s - forbidden"
  by (auto simp: clean_filename_filter)


subsection \<open>The id tag\<close>

lemma length_b64_alphabet: "length b64_alphabet = 64"
  by (simp add: b64_alphabet_def)

lemma distinct_b64_alphabet: "distinct b64_alphabet"
  by (simp add: b64_alphabet_def)

lemma b64_index_char: "n < 64 \<Longrightarrow> b64_index (b64_char n) = Some n"
proof -
  assume n: "n < 64"
  have "map_of (zip b64_alphabet [0..<64]) (b64_alphabet ! n) = Some ([0..<64] ! n)"
    using n by (intro map_of_zip_nth) (simp_all add: length_b64_alphabet distinct_b64_alphabet)
  then show ?thesis using n by (simp add: b64_index_def b64_char_def)
qed

lemma b64_char_in_alphabet: "n < 64 \<Longrightarrow> b64_char n \<in> set b64_alphabet"
  by (simp add: b64_char_def length_b64_alphabet)

lemma pad_not_in_alphabet: "CHR ''='' \<notin> set b64_alphabet"
  by (simp add: b64_alphabet_def)

lemma colon_not_in_alphabet: "CHR '':'' \<notin> set b64_alphabet"
  by (simp add: b64_alphabet_def)

lemma b64_char_not_pad: "n < 64 \<Longrightarrow> b64_char n \<noteq> CHR ''=''"
  using b64_char_in_alphabet pad_not_in_alphabet by metis

lemma b64_char_not_colon: "n < 64 \<Longrightarrow> b64_char n \<noteq> CHR '':''"
  using b64_char_in_alphabet colon_not_in_alphabet by metis

lemma int_from_to_bytes: "int_from_bytes (to_bytes_little k n) = n mod 256 ^ k"
proof (induction k arbitrary: n)
  case 0
  then show ?case by simp
next
  case (Suc k)
  have "n mod 256 + 256 * (n div 256 mod 256 ^ k) = n mod (256 * 256 ^ k)"
    by (simp add: mod_mult2_eq)
  with Suc show ?case by simp
qed

lemma length_to_bytes_little: "length (to_bytes_little k n) = k"
  by (induction k arbitrary: n) simp_all

lemma to_bytes_little_bytes: "\<forall>b \<in> set (to_bytes_little k n). b < 256"
  by (induction k arbitrary: n) simp_all

lemma div16: "(b::nat) < 256 \<Longrightarrow> b div 16 < 16"
  by (simp add: less_mult_imp_div_less)

lemma div64: "(c::nat) < 256 \<Longrightarrow> c div 64 < 4"
  by (simp add: less_mult_imp_div_less)

lemma div4: "(a::nat) < 256 \<Longrightarrow> a div 4 < 64"
  by (simp add: less_mult_imp_div_less)

lemma sextet1: "(b::nat) < 256 \<Longrightarrow> (a mod 4) * 16 + b div 16 < 64"
proof -
  assume "b < 256"
  then have "b div 16 < 16" by (rule div16)
  moreover have "a mod 4 < 4" by simp
  ultimately show ?thesis by linarith
qed

lemma sextet2: "(c::nat) < 256 \<Longrightarrow> (b mod 16) * 4 + c div 64 < 64"
proof -
  assume "c < 256"
  then have "c div 64 < 4" by (rule div64)
  moreover have "b mod 16 < 16" by simp
  ultimately show ?thesis by linarith
qed

lemma regroup1: "(b::nat) < 256 \<Longrightarrow> (a div 4) * 4 + ((a mod 4) * 16 + b div 16) div 16 = a"
proof -
  assume "b < 256"
  then have "b div 16 < 16" by (rule div16)
  then have "((a mod 4) * 16 + b div 16) div 16 = a mod 4" by simp
  then show ?thesis by simp
qed

lemma regroup2:
  "(b::nat) < 256 \<Longrightarrow> c < 256 \<Longrightarrow>
   (((a mod 4) * 16 + b div 16) mod 16) * 16 + ((b mod 16) * 4 + c div 64) div 4 = b"
proof -
  assume "b < 256" "c < 256"
  then have b: "b div 16 < 16" and c: "c div 64 < 4" by (simp_all add: div16 div64)
  from b have "((a mod 4) * 16 + b div 16) mod 16 = b div 16" by simp
  moreover from c have "((b mod 16) * 4 + c div 64) div 4 = b mod 16" by simp
  ultimately show ?thesis by simp
qed

lemma regroup3: "(c::nat) < 256 \<Longrightarrow> (((b mod 16) * 4 + c div 64) mod 4) * 64 + c mod 64 = c"
proof -
  assume "c < 256"
  then have "c div 64 < 4" by (rule div64)
  then have "((b mod 16) * 4 + c div 64) mod 4 = c div 64" by simp
  then show ?thesis by simp
qed

lemma b64decode_b64encode:
  "\<forall>b \<in> set bs. b < 256 \<Longrightarrow> b64decode (b64encode bs) = Some bs"
proof (induction bs rule: b64encode.induct)
  case (1 a b c rest)
  then have lt: "a < 256" "b < 256" "c < 256" and IH: "b64decode (b64encode rest) = Some rest"
    by simp_all
  have s: "a div 4 < 64" "(a mod 4) * 16 + b div 16 < 64" "(b mod 16) * 4 + c div 64 < 64"
    "c mod 64 < 64"
    using lt by (simp_all add: div4 sextet1 sextet2)
  show ?case
    using lt s IH
    by (simp add: b64_index_char b64_char_not_pad regroup1 regroup2 regroup3)
next
  case (2 a b)
  then have lt: "a < 256" "b < 256" by simp_all
  have s: "a div 4 < 64" "(a mod 4) * 16 + b div 16 < 64" "(b mod 16) * 4 + 0 div 64 < 64"
    using lt by (simp_all only: div4 sextet1 sextet2)
  have r: "(((a mod 4) * 16 + b div 16) mod 16) * 16 + ((b mod 16) * 4 + 0 div 64) div 4 = b"
    using lt by (intro regroup2) simp_all
  show ?case
    using lt s r
    by (simp add: b64_index_char b64_char_not_pad regroup1)
next
  case (3 a)
  then have lt: "a < 256" by simp
  have s: "a div 4 < 64" "(a mod 4) * 16 + 0 div 16 < 64"
    using lt by (simp_all only: div4 sextet1)
  have r: "(a div 4) * 4 + ((a mod 4) * 16 + 0 div 16) div 16 = a"
    by (intro regroup1) simp
  show ?case
    using lt s r
    by (simp add: b64_index_char b64_char_not_pad)
next
  case 4
  then show ?case by simp
qed

lemma length_b64encode: "length (b64encode bs) = 4 * ((length bs + 2) div 3)"
proof (induction bs rule: b64encode.induct)
  case (1 a b c rest)
  have "(length (a # b # c # rest) + 2) div 3 = (length rest + 2) div 3 + 1"
    by simp
  with 1 show ?case by simp
qed simp_all

lemma unat_snowflake_bound: "unat (i :: snowflake) < 256 ^ 8"
proof -
  have "unat i < 2 ^ LENGTH(64)" by (rule unsigned_less)
  then show ?thesis by simp
qed

lemma encode_id_token: "encode_id i = Inr (b64encode (to_bytes_little 8 (unat i)))"
  using unat_snowflake_bound [of i] by (simp add: encode_id_def int_to_bytes_def)

lemma b64encode_alphabet:
  "\<forall>b \<in> set bs. b < 256 \<Longrightarrow> set (b64encode bs) \<subseteq> set b64_alphabet \<union> {CHR ''=''}"
proof (induction bs rule: b64encode.induct)
  case (1 a b c rest)
  then have lt: "a < 256" "b < 256" "c < 256"
    and IH: "set (b64encode rest) \<subseteq> set b64_alphabet \<union> {CHR ''=''}"
    by simp_all
  have "a div 4 < 64" "(a mod 4) * 16 + b div 16 < 64" "(b mod 16) * 4 + c div 64 < 64"
    "c mod 64 < 64"
    using lt by (simp_all add: div4 sextet1 sextet2)
  then show ?case
    using IH by (simp add: b64_char_in_alphabet)
next
  case (2 a b)
  then have lt: "a < 256" "b < 256" by simp_all
  have "a div 4 < 64" "(a mod 4) * 16 + b div 16 < 64" "(b mod 16) * 4 + 0 div 64 < 64"
    using lt by (simp_all only: div4 sextet1 sextet2)
  then show ?case
    by (simp add: b64_char_in_alphabet)
next
  case (3 a)
  then have lt: "a < 256" by simp
  have "a div 4 < 64" "(a mod 4) * 16 + 0 div 16 < 64"
    using lt by (simp_all only: div4 sextet1)
  then show ?case
    by (simp add: b64_char_in_alphabet)
next
  case 4
  then show ?case by simp
qed

text \<open>
  C6. For every 64-bit message id the token is computed without an error; decoding it from
  base64 (standard alphabet) and reading the bytes as a little-endian integer gives the id
  back; the token is 12 characters long, of the standard alphabet and the padding
  character, and the decoded text has 8 bytes.
\<close>

theorem idtag_token_roundtrip:
  "\<exists>token. encode_id i = Inr token
      \<and> decode_idtag token = Some (unat i)
      \<and> map_option word_of_nat (decode_idtag token) = Some i
      \<and> map_option length (b64decode token) = Some 8
      \<and> length token = 12
      \<and> set token \<subseteq> set b64_alphabet \<union> {CHR ''=''}"
proof -
  let ?bs = "to_bytes_little 8 (unat i)"
  have dec: "b64decode (b64encode ?bs) = Some ?bs"
    by (rule b64decode_b64encode) (rule to_bytes_little_bytes)
  have "int_from_bytes ?bs = unat i mod 256 ^ 8"
    by (rule int_from_to_bytes)
  also have "\<dots> = unat i"
    using unat_snowflake_bound [of i] by (rule mod_less)
  finally have val: "int_from_bytes ?bs = unat i" .
  have len: "length (b64encode ?bs) = 12"
    by (simp add: length_b64encode length_to_bytes_little)
  have alpha: "set (b64encode ?bs) \<subseteq> set b64_alphabet \<union> {CHR ''=''}"
    by (rule b64encode_alphabet) (rule to_bytes_little_bytes)
  show ?thesis
    using dec val len alpha
    by (simp add: encode_id_token decode_idtag_def length_to_bytes_little)
qed

subsection \<open>The record formatter\<close>

lemma strftime_hms: "strftime ''[%H:%M:%S]'' t = ''['' @ hh_mm_ss t @ '']''"
  by (simp add: strftime_directive_def hh_mm_ss_def)

lemma str_replace_concat:
  "str_replace old new s = concat (map (\<lambda>c. if c = old then new else [c]) s)"
  by (induction s) simp_all

lemma foldl_append_concat: "foldl (\<lambda>acc x. acc @ f x) init xs = init @ concat (map f xs)"
  by (induction xs arbitrary: init) simp_all

lemma to_bytes_little_8:
  "to_bytes_little 8 n =
     (n mod 256) # (n div 256 mod 256) # (n div 256 div 256 mod 256) #
     to_bytes_little 5 (n div 256 div 256 div 256)"
proof -
  have "(8::nat) = Suc (Suc (Suc 5))" by simp
  then show ?thesis by (simp only: to_bytes_little.simps)
qed

lemma token_second_char:
  "\<exists>c0 c1 cs. b64encode (to_bytes_little 8 n) = c0 # c1 # cs \<and> c1 \<noteq> CHR '':''"
proof -
  have "n div 256 mod 256 < (256::nat)" by simp
  then have "b64_char ((n mod 256 mod 4) * 16 + (n div 256 mod 256) div 16) \<noteq> CHR '':''"
    by (intro b64_char_not_colon sextet1)
  then show ?thesis by (simp only: to_bytes_little_8 b64encode.simps append_Cons) blast
qed

lemma token_not_edit_prefix: "\<not> prefix ''E:'' (b64encode (to_bytes_little 8 n))"
proof -
  obtain c0 c1 cs where "b64encode (to_bytes_little 8 n) = c0 # c1 # cs" and "c1 \<noteq> CHR '':''"
    using token_second_char by blast
  then show ?thesis by simp
qed

lemma length_two_digits: "n < 100 \<Longrightarrow> length (pad_zero 2 (str_nat n)) = 2"
proof (cases "n < 10")
  case True
  then show ?thesis by (simp add: str_nat.simps [of n] pad_zero_def)
next
  case False
  assume "n < 100"
  with False have "n div 10 < 10" by simp
  with False show ?thesis
    by (simp add: str_nat.simps [of n] str_nat.simps [of "n div 10"] pad_zero_def)
qed

lemma make_message_attachments:
  "(if as \<noteq> [] then foldl (\<lambda>acc attach. acc @ newline # ''(attach) '' @ url attach) [] as
    else []) = attachment_lines as"
  by (simp add: foldl_append_concat attachment_lines_def)

lemma make_message_content:
  "str_replace newline (newline # ''(newline) '') s = escaped_content s"
  unfolding str_replace_concat escaped_content_def newline_marker_def by (rule refl)

lemma make_message_time:
  "(if USE_LOCALTIME cfg
    then astimezone_local e (case edited_at m of Some t \<Rightarrow> t | None \<Rightarrow> created_at m)
    else (case edited_at m of Some t \<Rightarrow> t | None \<Rightarrow> created_at m)) = display_time cfg e m"
  by (simp add: display_time_def effective_time_def)

lemma make_message_line:
  "make_message cfg e m =
     Inr (''['' @ idtag m @ ''] ['' @ hh_mm_ss (display_time cfg e m) @ ''] <'' @
          user_name (author m) @ ''#'' @ discriminator (author m) @ ''> '' @
          escaped_content (clean_content m) @ '' '' @ attachment_lines (attachments m))"
  unfolding make_message_def Let_def encode_id_token make_message_attachments
    make_message_time make_message_content strftime_hms
  by (simp add: idtag_def)

text \<open>
  C1. The line of a message is
  \<^verbatim>\<open>[<idtag>] [<HH:MM:SS>] <name#discriminator> <content> <attachment-lines>\<close>, the five
  parts separated by single spaces and the author between angle brackets. The id tag
  begins with \<^verbatim>\<open>E:\<close> exactly when the message has an edit timestamp; every newline of
  the clean content is followed by the marker \<^verbatim>\<open>(newline) \<close> of 10 characters and no
  other character is changed; every attachment gives a newline, \<^verbatim>\<open>(attach) \<close> and its
  URL, in the order of the event; with no attachment the last part is empty. The time has
  8 characters when its three fields have at most two digits.
\<close>

theorem make_message_shape:
  "make_message cfg e m =
     Inr (''['' @ idtag m @ ''] ['' @ hh_mm_ss (display_time cfg e m) @ ''] <'' @
          user_name (author m) @ ''#'' @ discriminator (author m) @ ''> '' @
          escaped_content (clean_content m) @ '' '' @ attachment_lines (attachments m))
   \<and> (prefix ''E:'' (idtag m) \<longleftrightarrow> edited_at m \<noteq> None)
   \<and> length newline_marker = 10
   \<and> attachment_lines [] = []
   \<and> (hour (display_time cfg e m) < 100 \<and> minute (display_time cfg e m) < 100 \<and>
      second (display_time cfg e m) < 100 \<longrightarrow> length (hh_mm_ss (display_time cfg e m)) = 8)"
proof -
  have tag: "prefix ''E:'' (idtag m) \<longleftrightarrow> edited_at m \<noteq> None"
    using token_not_edit_prefix [of "unat (msg_id m)"] by (simp add: idtag_def)
  have len: "hour (display_time cfg e m) < 100 \<and> minute (display_time cfg e m) < 100 \<and>
      second (display_time cfg e m) < 100 \<longrightarrow> length (hh_mm_ss (display_time cfg e m)) = 8"
    by (simp add: hh_mm_ss_def length_two_digits)
  have marker: "length newline_marker = 10"
    by (simp add: newline_marker_def)
  have none: "attachment_lines [] = []"
    by (simp add: attachment_lines_def)
  show ?thesis
    using make_message_line tag len marker none by blast
qed


subsection \<open>Evaluating the examples\<close>

lemma str_nat_digit: "n < 10 \<Longrightarrow> str_nat n = [digit_char n]"
  by (simp add: str_nat.simps [of n])

lemma str_nat_step: "10 \<le> n \<Longrightarrow> str_nat n = str_nat (n div 10) @ [digit_char (n mod 10)]"
  by (simp add: str_nat.simps [of n])

lemma to_bytes_little_8_all:
  "to_bytes_little 8 n =
     [n mod 256, n div 256 mod 256, n div 256 div 256 mod 256,
      n div 256 div 256 div 256 mod 256,
      n div 256 div 256 div 256 div 256 mod 256,
      n div 256 div 256 div 256 div 256 div 256 mod 256,
      n div 256 div 256 div 256 div 256 div 256 div 256 mod 256,
      n div 256 div 256 div 256 div 256 div 256 div 256 div 256 mod 256]"
proof -
  have "(8::nat) = Suc (Suc (Suc (Suc (Suc (Suc (Suc (Suc 0)))))))" by simp
  then show ?thesis by (simp only: to_bytes_little.simps)
qed

lemmas evals = str_nat_digit str_nat_step digit_char_def pad_zero_def to_bytes_little_8_all
  b64_char_def b64_alphabet_def newline_def

theorem make_message_shape_witness:
  "make_message utc_config utc_env edited_message =
     Inr (''[E:AQAAAAAAAAA=] [00:30:05] <alice#0001> line1'' @ [newline] @ ''(newline) line2 '' @
          [newline] @ ''(attach) http://a/1'' @ [newline] @ ''(attach) http://a/2'')
   \<and> prefix ''E:'' (idtag edited_message)
   \<and> length (hh_mm_ss (display_time utc_config utc_env edited_message)) = 8"
  using make_message_shape [of utc_config utc_env edited_message]
  by (simp add: idtag_def hh_mm_ss_def display_time_def effective_time_def escaped_content_def
      attachment_lines_def newline_marker_def utc_config_def utc_env_def edited_message_def
      alice_def evals)

lemma make_message_hello:
  "make_message utc_config utc_env hello_message =
     Inr ''[FYHpffQQIhE=] [10:00:00] <alice#0001> hello world ''"
  by (simp add: make_message_line idtag_def hh_mm_ss_def display_time_def effective_time_def
      escaped_content_def attachment_lines_def utc_config_def utc_env_def hello_message_def
      alice_def evals)


subsection \<open>The writer\<close>

lemma os_makedirs_files: "files (snd (os_makedirs d fs)) = files fs"
  by (simp add: os_makedirs_def)

lemma os_makedirs_raises: "os_makedirs d fs = (Inl err, fs1) \<Longrightarrow> fs1 = fs"
  by (auto simp: os_makedirs_def split: if_splits)

lemma write'_None: "write' cfg e None s fs = (Inl TypeError, fs)"
  by (simp add: write'_def)

text \<open>
  A call of \<^verbatim>\<open>write\<close> with a path: it raises what \<^verbatim>\<open>os.makedirs\<close> raises, it
  raises when the path is a directory, and otherwise the file holds its former text, or the
  session line if it did not exist, followed by the string and a newline.
\<close>

lemma write'_Some:
  "write' cfg e (Some p) s fs =
     (case os_makedirs (os_path_dirname p) fs of
        (Inl err, fs1) \<Rightarrow> (Inl err, fs1)
      | (Inr u, fs1) \<Rightarrow>
          if p \<in> dirs fs1 then (Inl IsADirectoryError, fs1)
          else (Inr (),
                fs1\<lparr>files := (files fs)(p \<mapsto>
                  (case files fs p of
                     None \<Rightarrow> session_start_line cfg e @ s @ [newline]
                   | Some old \<Rightarrow> old @ s @ [newline]))\<rparr>))"
proof (cases "os_makedirs (os_path_dirname p) fs")
  case (Pair r fs1)
  have f: "files fs1 = files fs"
    using os_makedirs_files [of "os_path_dirname p" fs] Pair by simp
  show ?thesis
  proof (cases r)
    case (Inl err)
    with Pair show ?thesis by (simp add: write'_def)
  next
    case (Inr u)
    with Pair f show ?thesis
      by (cases "files fs p")
        (simp_all add: write'_def open_append_def file_write_def os_path_exists_def
          session_start_line_def Let_def)
  qed
qed

lemma write'_files_raises:
  "fst (write' cfg e filename s fs) = Inl err \<Longrightarrow> files (snd (write' cfg e filename s fs)) = files fs"
proof (cases filename)
  case None
  then show ?thesis by (simp add: write'_None)
next
  case (Some p)
  assume "fst (write' cfg e filename s fs) = Inl err"
  with Some os_makedirs_files [of "os_path_dirname p" fs] show ?thesis
    by (auto simp: write'_Some split: prod.splits sum.splits if_splits)
qed

lemma write'_appends:
  assumes "write' cfg e (Some p) s fs = (Inr (), fs')"
  shows "files fs' = (files fs)(p \<mapsto>
           (case files fs p of
              None \<Rightarrow> session_start_line cfg e @ s @ [newline]
            | Some old \<Rightarrow> old @ s @ [newline]))"
  using assms by (auto simp: write'_Some split: prod.splits sum.splits if_splits)


lemma write'_twice:
  assumes "files fs p = None"
    and "write' cfg e1 (Some p) s1 fs = (Inr (), fs1)"
    and "write' cfg e2 (Some p) s2 fs1 = (Inr (), fs2)"
  shows "files fs1 p = Some (session_start_line cfg e1 @ s1 @ [newline])"
    and "files fs2 p = Some (session_start_line cfg e1 @ s1 @ [newline] @ s2 @ [newline])"
proof -
  show 1: "files fs1 p = Some (session_start_line cfg e1 @ s1 @ [newline])"
    using write'_appends [OF assms(2)] assms(1) by simp
  show "files fs2 p = Some (session_start_line cfg e1 @ s1 @ [newline] @ s2 @ [newline])"
    using write'_appends [OF assms(3)] 1 by simp
qed

lemma example_dirname: "os_path_dirname ''logs/DM/alice-3/2023-05-01.log'' = ''logs/DM/alice-3''"
  by (simp add: os_path_dirname_def)

lemma example_makedirs:
  "os_makedirs ''logs/DM/alice-3'' empty_fs =
     (Inr (), \<lparr>dirs = {''logs'', ''logs/DM'', ''logs/DM/alice-3''}, files = Map.empty\<rparr>)"
  by (simp add: os_makedirs_def empty_fs_def)

lemma example_session_start_line:
  "session_start_line utc_config utc_env = ''Session start: 2023-05-05/01/23 10:00'' @ [newline]"
  by (simp add: session_start_line_def utc_config_def utc_env_def strftime_directive_def evals)

lemma example_session_start_spec:
  "session_start_spec utc_config utc_env = ''Session start: 2023-05-01 10:00'' @ [newline]"
  by (simp add: session_start_spec_def utc_config_def utc_env_def strftime_directive_def evals)

text \<open>
  C3. The first append to a path that does not exist writes one session line and then the
  data line, and a later append adds only its data line (\<open>write'_twice\<close>); but the session
  line is composed with the format \<^verbatim>\<open>%Y-%m-%D\<close>, and \<^verbatim>\<open>%D\<close> is the whole date
  \<^verbatim>\<open>MM/DD/YY\<close>, not the day. On 2023-05-01 the line is
  \<^verbatim>\<open>Session start: 2023-05-05/01/23 10:00\<close>, where the specification has
  \<^verbatim>\<open>Session start: 2023-05-01 10:00\<close>.
\<close>

theorem write_session_line_format:
  "files (snd (write' utc_config utc_env (Some ''logs/DM/alice-3/2023-05-01.log'') ''x'' empty_fs))
     ''logs/DM/alice-3/2023-05-01.log'' =
     Some (''Session start: 2023-05-05/01/23 10:00'' @ [newline] @ ''x'' @ [newline])
   \<and> session_start_spec utc_config utc_env = ''Session start: 2023-05-01 10:00'' @ [newline]
   \<and> session_start_line utc_config utc_env \<noteq> session_start_spec utc_config utc_env"
proof -
  have "files (snd (write' utc_config utc_env (Some ''logs/DM/alice-3/2023-05-01.log'') ''x'' empty_fs))
     ''logs/DM/alice-3/2023-05-01.log'' = Some (session_start_line utc_config utc_env @ ''x'' @ [newline])"
    by (simp add: write'_Some example_dirname example_makedirs) (simp add: empty_fs_def)
  then show ?thesis
    by (simp add: example_session_start_line example_session_start_spec)
qed

subsection \<open>The path router\<close>

lemma strftime_F: "strftime ''%F'' t = strftime ''%Y-%m-%d'' t"
  by (simp add: strftime_directive_def)

lemma make_filename_date:
  "\<not> USE_LOCALTIME cfg \<Longrightarrow>
   strftime ''%F'' (case edited_at m of Some t \<Rightarrow> t | None \<Rightarrow> created_at m) = policy_date cfg e m"
  by (simp only: strftime_F policy_date_def display_time_def effective_time_def if_False)

lemma make_filename_ignores_policy:
  "make_filename (cfg\<lparr>USE_LOCALTIME := b\<rparr>) m = make_filename cfg m"
  by (cases "channel m") (simp_all add: make_filename_def Let_def)

text \<open>
  C2, as amended. Under the UTC policy the path of a message is
  \<^verbatim>\<open><log_root>/<guild>-<id>/#<channel>-<id>/<date>.log\<close> for a guild's text channel and
  \<^verbatim>\<open><log_root>/DM/<group>-<id>/<date>.log\<close> for a group, as the specification routes
  them, and \<^verbatim>\<open><log_root>/DM/<author>-<id>/<date>.log\<close> for a direct message: the
  directory is named after the author of the message, who is the counterpart only in the
  messages the counterpart wrote. The names are sanitized and the date is that of the edit
  if there is one and of the creation otherwise, as \<^verbatim>\<open>YYYY-MM-DD\<close>.
\<close>

theorem make_filename_paths:
  assumes "\<not> USE_LOCALTIME cfg"
  shows
    "(channel m = TextChannel g cname cid \<longrightarrow>
        make_filename cfg m = route cfg e m \<and>
        make_filename cfg m =
          Some (LOG_DIR cfg @ ''/'' @ clean_filename (guild_name g) @ ''-'' @
                str_nat (unat (guild_id g)) @ ''/#'' @ clean_filename cname @ ''-'' @
                str_nat (unat cid) @ ''/'' @ policy_date cfg e m @ ''.log''))
     \<and> (channel m = GroupChannel gname gid \<longrightarrow>
        make_filename cfg m = route cfg e m \<and>
        make_filename cfg m =
          Some (LOG_DIR cfg @ ''/DM/'' @ clean_filename gname @ ''-'' @
                str_nat (unat gid) @ ''/'' @ policy_date cfg e m @ ''.log''))
     \<and> (channel m = DMChannel r \<longrightarrow>
        make_filename cfg m =
          Some (LOG_DIR cfg @ ''/DM/'' @ clean_filename (user_name (author m)) @ ''-'' @
                str_nat (unat (user_id (author m))) @ ''/'' @ policy_date cfg e m @ ''.log''))
     \<and> (channel m = DMChannel (author m) \<longrightarrow> make_filename cfg m = route cfg e m)
     \<and> policy_date cfg e m = strftime ''%Y-%m-%d'' (effective_time m)"
proof -
  have d: "strftime_directive CHR ''F'' (case edited_at m of Some t \<Rightarrow> t | None \<Rightarrow> created_at m) =
           policy_date cfg e m"
    using make_filename_date [OF assms, of m e] by simp
  have tc: "channel m = TextChannel g cname cid \<longrightarrow>
        make_filename cfg m = route cfg e m \<and>
        make_filename cfg m =
          Some (LOG_DIR cfg @ ''/'' @ clean_filename (guild_name g) @ ''-'' @
                str_nat (unat (guild_id g)) @ ''/#'' @ clean_filename cname @ ''-'' @
                str_nat (unat cid) @ ''/'' @ policy_date cfg e m @ ''.log'')"
    by (simp add: make_filename_def route_def Let_def d)
  have grp: "channel m = GroupChannel gname gid \<longrightarrow>
        make_filename cfg m = route cfg e m \<and>
        make_filename cfg m =
          Some (LOG_DIR cfg @ ''/DM/'' @ clean_filename gname @ ''-'' @
                str_nat (unat gid) @ ''/'' @ policy_date cfg e m @ ''.log'')"
    by (simp add: make_filename_def route_def Let_def d)
  have dm: "channel m = DMChannel r \<longrightarrow>
        make_filename cfg m =
          Some (LOG_DIR cfg @ ''/DM/'' @ clean_filename (user_name (author m)) @ ''-'' @
                str_nat (unat (user_id (author m))) @ ''/'' @ policy_date cfg e m @ ''.log'')"
    by (simp add: make_filename_def Let_def d)
  have dm': "channel m = DMChannel (author m) \<longrightarrow> make_filename cfg m = route cfg e m"
    by (simp add: make_filename_def route_def Let_def d)
  have pd: "policy_date cfg e m = strftime ''%Y-%m-%d'' (effective_time m)"
    using assms by (simp add: policy_date_def display_time_def)
  show ?thesis
    using tc grp dm dm' pd by blast
qed

lemma example_route_hello:
  "route utc_config utc_env hello_message = Some ''logs/Test Guild-1/#general-2/2023-05-01.log''"
  by (simp add: route_def policy_date_def display_time_def effective_time_def utc_config_def
      hello_message_def strftime_directive_def clean_filename_def filename_class_def
      backslash_def dquote_def evals)

theorem make_filename_paths_witness:
  "\<not> USE_LOCALTIME utc_config
   \<and> make_filename utc_config hello_message =
       Some ''logs/Test Guild-1/#general-2/2023-05-01.log''"
proof -
  have p: "\<not> USE_LOCALTIME utc_config"
    by (simp add: utc_config_def)
  have c: "channel hello_message = TextChannel \<lparr>guild_name = ''Test Guild'', guild_id = 1\<rparr> ''general'' 2"
    by (simp add: hello_message_def)
  from make_filename_paths [OF p, of hello_message _ _ _ utc_env] c
  have "make_filename utc_config hello_message = route utc_config utc_env hello_message"
    by blast
  with p show ?thesis
    by (simp add: example_route_hello)
qed

text \<open>
  The claim as stated fails for a direct message the logged-in account wrote: the message
  of alice to bob is filed under alice, and the specification's path is under bob, the
  counterpart.
\<close>

theorem make_filename_own_dm_counterexample:
  "make_filename utc_config own_dm = Some ''logs/DM/alice-3/2023-05-01.log''
   \<and> route utc_config utc_env own_dm = Some ''logs/DM/bob-4/2023-05-01.log''
   \<and> make_filename utc_config own_dm \<noteq> route utc_config utc_env own_dm"
  by (simp add: make_filename_def route_def policy_date_def display_time_def effective_time_def
      utc_config_def own_dm_def hello_message_def alice_def bob_def strftime_directive_def
      clean_filename_def filename_class_def backslash_def dquote_def evals)


lemma example_localtime_date:
  "make_filename local_config late_message =
     Some ''logs/Test Guild-1/#general-2/2023-05-01.log''
   \<and> policy_date local_config ahead_env late_message = ''2023-05-02''
   \<and> hh_mm_ss (display_time local_config ahead_env late_message) = ''00:30:00''"
  by (simp add: make_filename_def policy_date_def display_time_def effective_time_def hh_mm_ss_def
      local_config_def utc_config_def ahead_env_def utc_env_def late_message_def
      hello_message_def strftime_directive_def clean_filename_def filename_class_def
      backslash_def dquote_def evals)

subsection \<open>The dispatcher\<close>

lemma make_filename_OtherChannel: "channel m = OtherChannel g \<Longrightarrow> make_filename cfg m = None"
  by (simp add: make_filename_def Let_def)

lemma handle_message_ignored:
  "message_guild m = Some g \<Longrightarrow> guild_id g \<in> set (IGNORE_SERVERS cfg) \<Longrightarrow>
   handle_message cfg e m fs = (Inr (), fs)"
  by (simp add: handle_message_def)

lemma handle_message_not_ignored:
  "\<not> (case message_guild m of None \<Rightarrow> False | Some g \<Rightarrow> guild_id g \<in> set (IGNORE_SERVERS cfg)) \<Longrightarrow>
   handle_message cfg e m fs =
     write' cfg e (make_filename cfg m)
       (''['' @ idtag m @ ''] ['' @ hh_mm_ss (display_time cfg e m) @ ''] <'' @
        user_name (author m) @ ''#'' @ discriminator (author m) @ ''> '' @
        escaped_content (clean_content m) @ '' '' @ attachment_lines (attachments m)) fs"
  by (simp add: handle_message_def make_message_line)

text \<open>
  C4, as amended. For a message whose channel is of none of the three classes,
  \<^verbatim>\<open>make_filename\<close> returns \<^verbatim>\<open>None\<close> without raising; \<^verbatim>\<open>handle_message\<close> then
  ends with the \<^verbatim>\<open>TypeError\<close> that \<^verbatim>\<open>os.path.dirname(None)\<close> raises in the writer,
  unless the guild of the channel is ignored and the event is dropped. In both cases no
  directory is created and no file is written.
\<close>

theorem unsupported_channel_unrouted:
  assumes "channel m = OtherChannel g"
  shows "make_filename cfg m = None
     \<and> snd (handle_message cfg e m fs) = fs
     \<and> (fst (handle_message cfg e m fs) =
          (if (case g of None \<Rightarrow> False | Some g' \<Rightarrow> guild_id g' \<in> set (IGNORE_SERVERS cfg))
           then Inr () else Inl TypeError))"
  using assms
  by (simp add: handle_message_def make_filename_OtherChannel make_message_line write'_None
      message_guild_def)

theorem unsupported_channel_unrouted_witness:
  "channel other_message = OtherChannel (Some \<lparr>guild_name = ''Test Guild'', guild_id = 1\<rparr>)
   \<and> make_filename utc_config other_message = None
   \<and> snd (handle_message utc_config utc_env other_message empty_fs) = empty_fs
   \<and> fst (handle_message utc_config utc_env other_message empty_fs) = Inl TypeError"
proof -
  have c: "channel other_message = OtherChannel (Some \<lparr>guild_name = ''Test Guild'', guild_id = 1\<rparr>)"
    by (simp add: other_message_def)
  from unsupported_channel_unrouted [OF c, of utc_config utc_env empty_fs] c
  show ?thesis by (simp add: utc_config_def)
qed

text \<open>
  The claim as stated fails: for the message in a channel of another class the router
  returns \<^verbatim>\<open>None\<close>, which is no error, and the only exception of the call is a
  \<^verbatim>\<open>TypeError\<close> from the writer.
\<close>

theorem unsupported_channel_counterexample:
  "make_filename utc_config other_message = None
   \<and> handle_message utc_config utc_env other_message empty_fs = (Inl TypeError, empty_fs)"
  by (simp add: handle_message_def make_filename_def make_message_line write'_None
      message_guild_def other_message_def utc_config_def Let_def)

lemma channel_guild_attr_Some:
  "channel_guild c = Some g \<Longrightarrow> channel_guild_attr c = Inr (Some g)"
  by (cases c) simp_all

text \<open>
  C9. An event of a conversation whose guild is in the ignore list changes nothing: the
  handler of a created message, the two listeners of the direct edit event and the handler
  of the raw edit event (whose channel is resolved to that conversation) all return with
  the file system as it was, directories included, and without an error.
\<close>

theorem ignored_guild_no_effect:
  assumes "message_guild m = Some g" and "guild_id g \<in> set (IGNORE_SERVERS cfg)"
  shows "handle_message cfg e m fs = (Inr (), fs)
     \<and> on_message cfg e m fs = (Inr (), fs)
     \<and> dispatch_message_edit cfg e before m fs = ([Inr (), Inr ()], fs)
     \<and> (get_channel client (payload_channel_id payload) = Some (channel m) \<longrightarrow>
          on_raw_message_edit cfg e client payload fs = (Inr (), fs))"
proof -
  have h: "handle_message cfg e m fs = (Inr (), fs)"
    using assms by (rule handle_message_ignored)
  have a: "channel_guild_attr (channel m) = Inr (Some g)"
    using assms(1) by (simp add: message_guild_def channel_guild_attr_Some)
  have raw: "get_channel client (payload_channel_id payload) = Some (channel m) \<longrightarrow>
          on_raw_message_edit cfg e client payload fs = (Inr (), fs)"
    using a assms(2) by (simp add: on_raw_message_edit_def split: option.splits)
  show ?thesis
    using h raw
    by (simp add: on_message_def dispatch_message_edit_def on_message_edit_first_def
        on_message_edit_second_def)
qed

theorem ignored_guild_no_effect_witness:
  "message_guild ignored_message = Some \<lparr>guild_name = ''Quiet'', guild_id = 7\<rparr>
   \<and> 7 \<in> set (IGNORE_SERVERS utc_config)
   \<and> handle_message utc_config utc_env ignored_message empty_fs = (Inr (), empty_fs)
   \<and> dispatch_message_edit utc_config utc_env hello_message ignored_message empty_fs =
       ([Inr (), Inr ()], empty_fs)"
proof -
  have g: "message_guild ignored_message = Some \<lparr>guild_name = ''Quiet'', guild_id = 7\<rparr>"
    by (simp add: message_guild_def ignored_message_def)
  have i: "guild_id \<lparr>guild_name = ''Quiet'', guild_id = 7\<rparr> \<in> set (IGNORE_SERVERS utc_config)"
    by (simp add: utc_config_def)
  from ignored_guild_no_effect [OF g i, of utc_env empty_fs hello_message] g i
  show ?thesis by simp
qed

lemma write'_ignore_list:
  "write' (cfg\<lparr>IGNORE_SERVERS := ids\<rparr>) e filename s fs = write' cfg e filename s fs"
proof (cases filename)
  case None
  then show ?thesis by (simp add: write'_None)
next
  case (Some p)
  have eq: "session_start_line (cfg\<lparr>IGNORE_SERVERS := ids\<rparr>) e = session_start_line cfg e"
    by (simp add: session_start_line_def)
  show ?thesis
    unfolding Some write'_Some eq by (rule refl)
qed

lemma make_filename_ignore_list:
  "make_filename (cfg\<lparr>IGNORE_SERVERS := ids\<rparr>) m = make_filename cfg m"
  by (cases "channel m") (simp_all add: make_filename_def Let_def)

lemma make_message_ignore_list:
  "make_message (cfg\<lparr>IGNORE_SERVERS := ids\<rparr>) e m = make_message cfg e m"
  by (simp add: make_message_line display_time_def)

lemma handle_message_no_guild:
  "message_guild m = None \<Longrightarrow>
   handle_message cfg e m fs =
     (case make_message cfg e m of
        Inl err \<Rightarrow> (Inl err, fs)
      | Inr line \<Rightarrow> write' cfg e (make_filename cfg m) line fs)"
  by (simp add: handle_message_def)

text \<open>
  In \<^verbatim>\<open>handle_message\<close> a message of a direct message channel or of a group channel,
  which has no guild, is never held back by the ignore list: whatever the list is, the
  message is routed to a path, its line is formatted and the writer is called with both.
  When the writer returns without an error of the file system, the file at the path ends
  with the line and a newline, after its former text or, for a new file, after the session
  line.
\<close>

lemma handle_message_no_guild_writes:
  assumes "channel m = DMChannel r \<or> channel m = GroupChannel gname gid"
  shows "\<exists>p line. make_filename cfg m = Some p \<and> make_message cfg e m = Inr line
      \<and> handle_message cfg e m fs = write' cfg e (Some p) line fs
      \<and> (\<forall>ids. handle_message (cfg\<lparr>IGNORE_SERVERS := ids\<rparr>) e m fs = write' cfg e (Some p) line fs)
      \<and> (\<forall>fs'. write' cfg e (Some p) line fs = (Inr (), fs') \<longrightarrow>
            files fs' p =
              Some ((case files fs p of None \<Rightarrow> session_start_line cfg e | Some old \<Rightarrow> old) @
                    line @ [newline]))"
proof -
  from assms have g: "message_guild m = None"
    by (auto simp: message_guild_def)
  from assms obtain p where p: "make_filename cfg m = Some p"
    by (auto simp: make_filename_def Let_def)
  obtain line where l: "make_message cfg e m = Inr line"
    by (simp add: make_message_line)
  have h: "handle_message cfg' e m fs =
             (case make_message cfg' e m of
                Inl err \<Rightarrow> (Inl err, fs)
              | Inr line \<Rightarrow> write' cfg' e (make_filename cfg' m) line fs)" for cfg'
    using g by (rule handle_message_no_guild)
  have 1: "handle_message cfg e m fs = write' cfg e (Some p) line fs"
    by (simp add: h p l)
  have 2: "handle_message (cfg\<lparr>IGNORE_SERVERS := ids\<rparr>) e m fs = write' cfg e (Some p) line fs"
    for ids
    by (simp add: h make_message_ignore_list make_filename_ignore_list write'_ignore_list p l)
  have 3: "files fs' p =
              Some ((case files fs p of None \<Rightarrow> session_start_line cfg e | Some old \<Rightarrow> old) @
                    line @ [newline])"
    if "write' cfg e (Some p) line fs = (Inr (), fs')" for fs'
    using write'_appends [OF that] by (simp split: option.splits)
  show ?thesis
    using p l 1 2 3 by blast
qed

lemma example_own_dm_path:
  "make_filename utc_config own_dm = Some ''logs/DM/alice-3/2023-05-01.log''"
  by (simp add: make_filename_def utc_config_def own_dm_def hello_message_def alice_def
      strftime_directive_def clean_filename_def filename_class_def backslash_def dquote_def
      evals)

lemma example_own_dm_line:
  "make_message utc_config utc_env own_dm =
     Inr ''[FYHpffQQIhE=] [10:00:00] <alice#0001> hello world ''"
  by (simp add: make_message_line idtag_def hh_mm_ss_def display_time_def effective_time_def
      escaped_content_def attachment_lines_def utc_config_def utc_env_def own_dm_def
      hello_message_def alice_def evals)

lemma example_write_own_dm:
  "fst (write' utc_config utc_env (Some ''logs/DM/alice-3/2023-05-01.log'') s empty_fs) = Inr ()"
  by (simp add: write'_Some example_dirname example_makedirs)

lemma example_own_dm_handled:
  "channel own_dm = DMChannel bob
   \<and> fst (handle_message utc_config utc_env own_dm empty_fs) = Inr ()
   \<and> files (snd (handle_message utc_config utc_env own_dm empty_fs))
       ''logs/DM/alice-3/2023-05-01.log'' =
       Some (''Session start: 2023-05-05/01/23 10:00'' @ [newline] @
             ''[FYHpffQQIhE=] [10:00:00] <alice#0001> hello world '' @ [newline])"
proof -
  have c: "channel own_dm = DMChannel bob"
    by (simp add: own_dm_def)
  then have "channel own_dm = DMChannel bob \<or> channel own_dm = GroupChannel [] 0"
    by simp
  from handle_message_no_guild_writes [OF this, of utc_config utc_env empty_fs]
  obtain p line where p: "make_filename utc_config own_dm = Some p"
    and l: "make_message utc_config utc_env own_dm = Inr line"
    and h: "handle_message utc_config utc_env own_dm empty_fs =
              write' utc_config utc_env (Some p) line empty_fs"
    and w: "\<And>fs'. write' utc_config utc_env (Some p) line empty_fs = (Inr (), fs') \<Longrightarrow>
            files fs' p =
              Some ((case files empty_fs p of
                       None \<Rightarrow> session_start_line utc_config utc_env
                     | Some old \<Rightarrow> old) @ line @ [newline])"
    by blast
  have p': "p = ''logs/DM/alice-3/2023-05-01.log''"
    using p by (simp add: example_own_dm_path)
  have l': "line = ''[FYHpffQQIhE=] [10:00:00] <alice#0001> hello world ''"
    using l by (simp add: example_own_dm_line)
  have ok: "fst (write' utc_config utc_env (Some p) line empty_fs) = Inr ()"
    unfolding p' by (rule example_write_own_dm)
  then have "write' utc_config utc_env (Some p) line empty_fs =
               (Inr (), snd (write' utc_config utc_env (Some p) line empty_fs))"
    by (metis prod.collapse)
  from w [OF this] have "files (snd (write' utc_config utc_env (Some p) line empty_fs)) p =
      Some (session_start_line utc_config utc_env @ line @ [newline])"
    by (simp add: empty_fs_def)
  with c ok show ?thesis
    unfolding h by (simp add: p' l' example_session_start_line)
qed









lemma on_raw_message_edit_unresolved:
  assumes "get_cached_message client (payload_message_id payload) = None"
  shows "get_channel client (payload_channel_id payload) = None \<Longrightarrow>
           on_raw_message_edit cfg e client payload fs = (Inr (), fs)"
    and "get_channel client (payload_channel_id payload) = Some (TextChannel g n i) \<Longrightarrow>
         channel_get_message client (TextChannel g n i) (payload_message_id payload) = Inr None \<Longrightarrow>
           on_raw_message_edit cfg e client payload fs = (Inr (), fs)"
    and "get_channel client (payload_channel_id payload) = Some (TextChannel g n i) \<Longrightarrow>
         guild_id g \<notin> set (IGNORE_SERVERS cfg) \<Longrightarrow>
         channel_get_message client (TextChannel g n i) (payload_message_id payload) = Inl err \<Longrightarrow>
           on_raw_message_edit cfg e client payload fs = (Inl err, fs)"
  using assms by (simp_all add: on_raw_message_edit_def)

lemma on_raw_message_edit_no_guild_attr:
  assumes "get_cached_message client (payload_message_id payload) = None"
    and "get_channel client (payload_channel_id payload) = Some chan"
    and "chan = DMChannel r \<or> chan = GroupChannel gname gid"
  shows "on_raw_message_edit cfg e client payload fs = (Inl AttributeError, fs)"
  using assms by (auto simp: on_raw_message_edit_def)

text \<open>
  C10. The ignore filter is applied at two places. In \<^verbatim>\<open>handle_message\<close> a message
  without a guild always passes it and is formatted, routed and handed to the writer
  (\<open>handle_message_no_guild_writes\<close>, \<open>example_own_dm_handled\<close>). In
  \<^verbatim>\<open>on_raw_message_edit\<close> the filter reads \<^verbatim>\<open>channel.guild\<close> from the channel
  itself, with a test for \<^verbatim>\<open>None\<close> that is meant to let a channel without a guild
  through; a direct message channel and a group channel have no such attribute, so the raw
  edit of a message that is not cached ends with \<^verbatim>\<open>AttributeError\<close> inside the filter,
  for the ignore list of the example and for the empty one, and nothing is formatted,
  routed or appended, although the same message passes \<^verbatim>\<open>handle_message\<close>.
\<close>

theorem raw_edit_no_guild_raises:
  "on_raw_message_edit utc_config utc_env dm_platform edit_payload empty_fs =
     (Inl AttributeError, empty_fs)
   \<and> on_raw_message_edit (utc_config\<lparr>IGNORE_SERVERS := []\<rparr>) utc_env dm_platform edit_payload
       empty_fs = (Inl AttributeError, empty_fs)
   \<and> on_raw_message_edit utc_config utc_env group_platform edit_payload empty_fs =
       (Inl AttributeError, empty_fs)
   \<and> fst (handle_message utc_config utc_env own_dm empty_fs) = Inr ()"
proof -
  have h: "fst (handle_message utc_config utc_env own_dm empty_fs) = Inr ()"
    using example_own_dm_handled by blast
  show ?thesis
    using h
    by (simp add: on_raw_message_edit_def dm_platform_def group_platform_def edit_payload_def)
qed

text \<open>
  C8. The handler returns silently when the channel is not resolved and when the request
  for the message answers \<^verbatim>\<open>None\<close> (\<open>on_raw_message_edit_unresolved\<close>), and it never
  writes for such an event. But the platform library signals a message it cannot fetch by
  raising (\<^verbatim>\<open>NotFound\<close>, \<^verbatim>\<open>Forbidden\<close>, \<^verbatim>\<open>HTTPException\<close>) and the handler does not
  catch it: the raw edit of a message that is not cached and no longer found, in a text
  channel that is not ignored, ends the handler with \<^verbatim>\<open>NotFound\<close>.
\<close>

theorem raw_edit_fetch_failure_raises:
  "on_raw_message_edit utc_config utc_env lost_platform edit_payload empty_fs =
     (Inl NotFound, empty_fs)"
  by (simp add: on_raw_message_edit_def lost_platform_def edit_payload_def hello_message_def
      utc_config_def)

end
